theory Spec2Isabelle
  imports Main
begin

section \<open>Run-time values\<close>

text \<open>
  The type annotations of the source are erased before the program runs, so a function
  declared on \<open>NetworkState\<close> can be handed any value. The values modelled here are
  \<open>undefined\<close>, \<open>null\<close>, booleans, numbers, strings, symbols and objects as
  \<open>JSON.parse\<close> builds them: a list of own data properties, read by name, on the
  prototype \<open>Object.prototype\<close>. Arrays, functions and big integers are left out.

  A number of the model is a safe integer, from \<open>-(2^53 - 1)\<close> to \<open>2^53 - 1\<close>: there
  every integer is a double, \<open>padding + 1\<close> is exact and the engine prints the decimal
  digits. Larger numbers, fractions, \<open>NaN\<close> and the infinities are not values of the model.
\<close>

typedef safe_integer = "{n :: int. - 9007199254740991 \<le> n \<and> n \<le> 9007199254740991}"
  by (rule exI [of _ 0]) simp

datatype jsval =
    Undefined
  | Null
  | Bool bool
  | Num safe_integer
  | Str string
  | Symbol string
  | Obj "(string \<times> jsval) list"

text \<open>The number literal \<open>i\<close>.\<close>

definition num :: "int \<Rightarrow> jsval" where
  "num i = Num (Abs_safe_integer i)"

text \<open>
  A \<open>throw\<close> is a value: \<open>Inl\<close> of the error. \<open>Error\<close> carries the message the source
  gives it; the messages of the built-in \<open>TypeError\<close> and \<open>RangeError\<close> are chosen by
  the engine and are not modelled.
\<close>

datatype js_error = Error string | TypeError | RangeError

type_synonym 'a completion = "js_error + 'a"

definition and_then :: "'a completion \<Rightarrow> ('a \<Rightarrow> 'b completion) \<Rightarrow> 'b completion" where
  "and_then c f = (case c of Inl e \<Rightarrow> Inl e | Inr x \<Rightarrow> f x)"

text \<open>
  The only effect channel of the snippets is the console (\<open>console.log\<close>,
  \<open>console.error\<close>). Every function takes the world and returns it with its completion.
\<close>

record world =
  console :: "string list"

type_synonym 'a js = "world \<Rightarrow> 'a completion \<times> world"

fun typeof :: "jsval \<Rightarrow> string" where
  "typeof Undefined = ''undefined''"
| "typeof Null = ''object''"
| "typeof (Bool b) = ''boolean''"
| "typeof (Num n) = ''number''"
| "typeof (Str s) = ''string''"
| "typeof (Symbol s) = ''symbol''"
| "typeof (Obj fs) = ''object''"

subsection \<open>Conversion to string\<close>

definition digit :: "nat \<Rightarrow> char" where
  "digit d = ''0123456789'' ! d"

fun digits :: "nat \<Rightarrow> string" where
  "digits n = (if n < 10 then [digit n] else digits (n div 10) @ [digit (n mod 10)])"

declare digits.simps [simp del]

definition number_to_string :: "safe_integer \<Rightarrow> string" where
  "number_to_string n =
     (if Rep_safe_integer n < 0 then ''-'' @ digits (nat (- Rep_safe_integer n))
      else digits (nat (Rep_safe_integer n)))"

text \<open>
  \<open>String(v)\<close>, which is also what a template literal \<open>`${v}`\<close> and \<open>"..." + v\<close> apply
  to \<open>v\<close>. A symbol does not convert: \<open>TypeError\<close>. An object converts through its
  \<open>toString\<close>: the inherited one prints \<open>[object Object]\<close>; an own property of that
  name is data, cannot be called, and the inherited \<open>valueOf\<close> (or an own one, data as
  well) yields no primitive either, so the conversion throws a \<open>TypeError\<close>.
\<close>

fun to_string :: "jsval \<Rightarrow> string completion" where
  "to_string Undefined = Inr ''undefined''"
| "to_string Null = Inr ''null''"
| "to_string (Bool b) = Inr (if b then ''true'' else ''false'')"
| "to_string (Num n) = Inr (number_to_string n)"
| "to_string (Str s) = Inr s"
| "to_string (Symbol s) = Inl TypeError"
| "to_string (Obj fs) =
     (case map_of fs ''toString'' of None \<Rightarrow> Inr ''[object Object]'' | Some x \<Rightarrow> Inl TypeError)"

text \<open>
  An engine refuses to build a string longer than its maximal string length with a
  \<open>RangeError\<close>. The maximum differs between engines and is not in the source: it is the
  parameter \<open>L\<close> of every function that builds a string. \<open>build L s\<close> is the string
  \<open>s\<close> as the result of a concatenation.
\<close>

definition build :: "nat \<Rightarrow> string \<Rightarrow> string completion" where
  "build L s = (if length s \<le> L then Inr s else Inl RangeError)"

subsection \<open>Property access\<close>

text \<open>
  \<open>v.k\<close>: reading a property of \<open>undefined\<close> or \<open>null\<close> throws a \<open>TypeError\<close>; a
  property an object does not have reads as \<open>undefined\<close>. The names read here
  (\<open>state\<close>, \<open>kind\<close>, \<open>code\<close>, \<open>response\<close>, \<open>title\<close>, \<open>summary\<close>) are members
  neither of \<open>Object.prototype\<close> nor of the wrappers of booleans, numbers, strings and
  symbols, so they read as \<open>undefined\<close> where they are not own properties.
\<close>

fun get :: "jsval \<Rightarrow> string \<Rightarrow> jsval completion" where
  "get Undefined k = Inl TypeError"
| "get Null k = Inl TypeError"
| "get (Obj fs) k = (case map_of fs k of None \<Rightarrow> Inr Undefined | Some x \<Rightarrow> Inr x)"
| "get v k = Inr Undefined"

section \<open>Arrays of strings\<close>

text \<open>
  The arrays the source builds hold strings or holes (\<open>None\<close>); \<open>join\<close> prints a hole as
  the empty string. The functions are polymorphic in the code unit.
\<close>

type_synonym 'u js_array = "'u list option list"

text \<open>
  \<open>Array(len)\<close> with one numeric argument makes \<open>len\<close> holes, and throws a
  \<open>RangeError\<close> unless \<open>len\<close> is an integer from \<open>0\<close> to \<open>2^32 - 1\<close>.
\<close>

definition Array :: "int \<Rightarrow> 'u js_array completion" where
  "Array len =
     (if 0 \<le> len \<and> len \<le> 4294967295 then Inr (replicate (nat len) None) else Inl RangeError)"

fun element :: "'u list option \<Rightarrow> 'u list" where
  "element None = []"
| "element (Some s) = s"

fun join :: "'u list \<Rightarrow> 'u js_array \<Rightarrow> 'u list" where
  "join sep [] = []"
| "join sep [x] = element x"
| "join sep (x # y # ys) = element x @ sep @ join sep (y # ys)"

text \<open>\<open>s.split("")\<close>: one string per code unit.\<close>

definition split_units :: "'u list \<Rightarrow> 'u js_array" where
  "split_units s = map (\<lambda>c. Some [c]) s"

section \<open>\<open>padLeft1\<close>\<close>

text \<open>
  \<^verbatim>\<open>
  function padLeft1(value: string, padding: any) {
    if (typeof padding === "number") {
      return Array(padding + 1).join(" ") + value;
    }
    if (typeof padding === "string") {
      return padding + value;
    }
    throw new Error(`Expected string or number, got '${padding}'.`);
  }
  \<close>
  The two \<open>typeof\<close> tests are the \<open>Num\<close> and \<open>Str\<close> cases. The joined string and
  each concatenation are built within the engine's limit \<open>L\<close>.
\<close>

definition padLeft1 :: "nat \<Rightarrow> string \<Rightarrow> jsval \<Rightarrow> string js" where
  "padLeft1 L val padding w =
     (case padding of
        Num n \<Rightarrow>
          (and_then (Array (Rep_safe_integer n + 1)) (\<lambda>a.
           and_then (build L (join '' '' a)) (\<lambda>pad.
           build L (pad @ val))), w)
      | Str p \<Rightarrow> (build L (p @ val), w)
      | _ \<Rightarrow>
          (and_then (to_string padding) (\<lambda>s.
           and_then (build L (''Expected string or number, got '' @ [CHR 0x27] @ s
                              @ [CHR 0x27] @ ''.'')) (\<lambda>m.
           Inl (Error m))), w))"

section \<open>\<open>reverse\<close>\<close>

text \<open>
  \<^verbatim>\<open>
  function reverse(s: string): string {
    return s.split("").reverse().join("");
  }
  \<close>
  The joined string is as long as \<open>s\<close>, which the engine holds already.
\<close>

definition reverse :: "'u list \<Rightarrow> 'u list" where
  "reverse s = join [] (rev (split_units s))"

section \<open>Discriminated unions\<close>

subsection \<open>The declared types\<close>

fun is_string :: "jsval \<Rightarrow> bool" where
  "is_string (Str s) = True"
| "is_string v = False"

fun is_number :: "jsval \<Rightarrow> bool" where
  "is_number (Num n) = True"
| "is_number v = False"

text \<open>\<open>has v k P\<close>: \<open>v\<close> is an object with a property \<open>k\<close> whose value satisfies \<open>P\<close>.\<close>

fun has :: "jsval \<Rightarrow> string \<Rightarrow> (jsval \<Rightarrow> bool) \<Rightarrow> bool" where
  "has (Obj fs) k P = (case map_of fs k of None \<Rightarrow> False | Some x \<Rightarrow> P x)"
| "has v k P = False"

definition is_NetworkLoadingState :: "jsval \<Rightarrow> bool" where
  "is_NetworkLoadingState v = has v ''state'' (\<lambda>x. x = Str ''loading'')"

definition is_response :: "jsval \<Rightarrow> bool" where
  "is_response r =
     (has r ''title'' is_string \<and> has r ''duration'' is_number \<and> has r ''summary'' is_string)"

definition is_NetworkSuccessState :: "jsval \<Rightarrow> bool" where
  "is_NetworkSuccessState v =
     (has v ''state'' (\<lambda>x. x = Str ''success'') \<and> has v ''response'' is_response)"

definition is_NetworkFailedState :: "jsval \<Rightarrow> bool" where
  "is_NetworkFailedState v =
     (has v ''state'' (\<lambda>x. x = Str ''failed'') \<and> has v ''code'' is_number)"

definition is_NetworkFromCachedState :: "jsval \<Rightarrow> bool" where
  "is_NetworkFromCachedState v =
     (has v ''state'' (\<lambda>x. x = Str ''from_cache'') \<and> has v ''id'' is_string
      \<and> has v ''response'' is_response)"

definition is_NetworkState :: "jsval \<Rightarrow> bool" where
  "is_NetworkState v =
     (is_NetworkSuccessState v \<or> is_NetworkFailedState v \<or> is_NetworkLoadingState v)"

definition is_NetworkState2 :: "jsval \<Rightarrow> bool" where
  "is_NetworkState2 v =
     (is_NetworkLoadingState v \<or> is_NetworkFailedState v \<or> is_NetworkSuccessState v
      \<or> is_NetworkFromCachedState v)"

text \<open>The literal types of the shared field \<open>state\<close>, in the order of the union.\<close>

definition NetworkState_tags :: "string list" where
  "NetworkState_tags = [''success'', ''failed'', ''loading'']"

definition NetworkState2_tags :: "string list" where
  "NetworkState2_tags = [''loading'', ''failed'', ''success'', ''from_cache'']"

subsection \<open>The \<open>switch\<close> statement\<close>

text \<open>
  A \<open>switch\<close> over string-literal labels whose clauses all \<open>return\<close>: the clauses are
  tried in order with \<open>===\<close>, the first whose label equals the discriminant runs, and
  with no match the \<open>default\<close> runs. A clause body is a function of the value switched
  on and of the world.
\<close>

type_synonym handler = "jsval \<Rightarrow> jsval js"

fun switch :: "jsval \<Rightarrow> (string \<times> 'a) list \<Rightarrow> 'a \<Rightarrow> 'a" where
  "switch d [] dflt = dflt"
| "switch d ((label, body) # cs) dflt = (if d = Str label then body else switch d cs dflt)"

text \<open>
  \<open>switch (v.field) { ... }\<close>: the discriminant is read first, and a \<open>TypeError\<close> of
  that read ends the function.
\<close>

definition switch_on :: "string \<Rightarrow> (string \<times> handler) list \<Rightarrow> handler \<Rightarrow> handler" where
  "switch_on field cs dflt v w =
     (case get v field of
        Inl e \<Rightarrow> (Inl e, w)
      | Inr d \<Rightarrow> switch d cs dflt v w)"

text \<open>A function whose \<open>switch\<close> matches nothing and has no \<open>default\<close> ends without a
  \<open>return\<close>: its value is \<open>undefined\<close>.\<close>

definition no_return :: handler where
  "no_return s w = (Inr Undefined, w)"

subsection \<open>\<open>logger\<close>\<close>

text \<open>
  \<^verbatim>\<open>
  switch (state.state) {
    case "loading":
      return "Downloading...";
    case "failed":
      return `Error ${state.code} downloading`;
    case "success":
      return `Downloaded ${state.response.title} - ${state.response.summary}`;
  }
  \<close>
  A template literal converts each substitution as it comes and appends it.
\<close>

definition logger_cases :: "nat \<Rightarrow> (string \<times> handler) list" where
  "logger_cases L =
     [(''loading'', \<lambda>state w. (Inr (Str ''Downloading...''), w)),
      (''failed'', \<lambda>state w.
         (and_then (get state ''code'') (\<lambda>c.
          and_then (to_string c) (\<lambda>cs.
          and_then (build L (''Error '' @ cs @ '' downloading'')) (\<lambda>r.
            Inr (Str r)))), w)),
      (''success'', \<lambda>state w.
         (and_then (get state ''response'') (\<lambda>r1.
          and_then (get r1 ''title'') (\<lambda>t.
          and_then (to_string t) (\<lambda>ts.
          and_then (build L (''Downloaded '' @ ts @ '' - '')) (\<lambda>a.
          and_then (get state ''response'') (\<lambda>r2.
          and_then (get r2 ''summary'') (\<lambda>s.
          and_then (to_string s) (\<lambda>ss.
          and_then (build L (a @ ss)) (\<lambda>r.
            Inr (Str r))))))))), w))]"

definition logger :: "nat \<Rightarrow> handler" where
  "logger L state w = switch_on ''state'' (logger_cases L) no_return state w"

subsection \<open>\<open>logger2\<close> and \<open>logger3\<close>\<close>

text \<open>
  Both are declared on \<open>NetworkState2\<close> and have the same three clauses:
  \<^verbatim>\<open>
  switch (s.state) {
    case "loading":
      return "loading request";
    case "failed":
      return `failed with code ${s.code}`;
    case "success":
      return "got response";
  }
  \<close>
\<close>

definition logger2_cases :: "nat \<Rightarrow> (string \<times> handler) list" where
  "logger2_cases L =
     [(''loading'', \<lambda>s w. (Inr (Str ''loading request''), w)),
      (''failed'', \<lambda>s w.
         (and_then (get s ''code'') (\<lambda>c.
          and_then (to_string c) (\<lambda>cs.
          and_then (build L (''failed with code '' @ cs)) (\<lambda>r.
            Inr (Str r)))), w)),
      (''success'', \<lambda>s w. (Inr (Str ''got response''), w))]"

definition logger2 :: "nat \<Rightarrow> handler" where
  "logger2 L s w = switch_on ''state'' (logger2_cases L) no_return s w"

definition logger3_cases :: "nat \<Rightarrow> (string \<times> handler) list" where
  "logger3_cases L =
     [(''loading'', \<lambda>s w. (Inr (Str ''loading request''), w)),
      (''failed'', \<lambda>s w.
         (and_then (get s ''code'') (\<lambda>c.
          and_then (to_string c) (\<lambda>cs.
          and_then (build L (''failed with code '' @ cs)) (\<lambda>r.
            Inr (Str r)))), w)),
      (''success'', \<lambda>s w. (Inr (Str ''got response''), w))]"

definition logger3 :: "nat \<Rightarrow> handler" where
  "logger3 L s w = switch_on ''state'' (logger3_cases L) no_return s w"

subsection \<open>\<open>assertNever\<close> and \<open>logger4\<close>\<close>

text \<open>
  \<^verbatim>\<open>
  function assertNever(x: never): never {
    throw new Error("Unexpected object: " + x);
  }
  \<close>
\<close>

definition assertNever :: "nat \<Rightarrow> handler" where
  "assertNever L x w =
     (and_then (to_string x) (\<lambda>s.
      and_then (build L (''Unexpected object: '' @ s)) (\<lambda>m.
      Inl (Error m))), w)"

text \<open>
  \<^verbatim>\<open>
  switch (s.state) {
    case "loading":
      return "loading request";
    case "failed":
      return `failed with code ${s.code}`;
    case "success":
      return "got response";
    case "from_cache":
      return "cashed";
    default:
      return assertNever(s);
  }
  \<close>
\<close>

definition logger4_cases :: "nat \<Rightarrow> (string \<times> handler) list" where
  "logger4_cases L =
     [(''loading'', \<lambda>s w. (Inr (Str ''loading request''), w)),
      (''failed'', \<lambda>s w.
         (and_then (get s ''code'') (\<lambda>c.
          and_then (to_string c) (\<lambda>cs.
          and_then (build L (''failed with code '' @ cs)) (\<lambda>r.
            Inr (Str r)))), w)),
      (''success'', \<lambda>s w. (Inr (Str ''got response''), w)),
      (''from_cache'', \<lambda>s w. (Inr (Str ''cashed''), w))]"

definition logger4 :: "nat \<Rightarrow> handler" where
  "logger4 L s w = switch_on ''state'' (logger4_cases L) (assertNever L) s w"

subsection \<open>The handler table of the specification's scenario\<close>

text \<open>
  Modelled from the spec: the handler table of its concrete scenario, which the
  repository does not contain. The specification gives the three handlers as
  \<^verbatim>\<open>
  { loading: () => "Downloading...",
    success: (p) => `Downloaded ${p.title}`,
    failed:  (p) => `Error ${p.code}` }
  \<close>
  over values whose discriminant field is \<open>kind\<close> and whose payload fields lie beside it.
  Dispatch over the table is the source's own construct, \<open>switch_on ''kind''\<close>.
\<close>

definition scenario_handlers :: "nat \<Rightarrow> (string \<times> handler) list" where
  "scenario_handlers L =
     [(''loading'', \<lambda>p w. (Inr (Str ''Downloading...''), w)),
      (''success'', \<lambda>p w.
         (and_then (get p ''title'') (\<lambda>t.
          and_then (to_string t) (\<lambda>ts.
          and_then (build L (''Downloaded '' @ ts)) (\<lambda>r.
            Inr (Str r)))), w)),
      (''failed'', \<lambda>p w.
         (and_then (get p ''code'') (\<lambda>c.
          and_then (to_string c) (\<lambda>cs.
          and_then (build L (''Error '' @ cs)) (\<lambda>r.
            Inr (Str r)))), w))]"

section \<open>Facts about the building blocks\<close>

lemma Rep_Abs_safe_integer:
  "- 9007199254740991 \<le> i \<Longrightarrow> i \<le> 9007199254740991 \<Longrightarrow>
   Rep_safe_integer (Abs_safe_integer i) = i"
  by (simp add: Abs_safe_integer_inverse)

lemma digits_404: "digits 404 = ''404''"
  by (simp add: digits.simps [of 404] digits.simps [of 40] digits.simps [of 4] digit_def)

lemma number_to_string_404: "number_to_string (Abs_safe_integer 404) = ''404''"
  by (simp add: number_to_string_def Rep_Abs_safe_integer digits_404)

lemma number_to_string_5: "number_to_string (Abs_safe_integer 5) = ''5''"
  by (simp add: number_to_string_def Rep_Abs_safe_integer digits.simps [of 5] digit_def)

lemma switch_map_of:
  "switch (Str t) cs dflt = (case map_of cs t of None \<Rightarrow> dflt | Some h \<Rightarrow> h)"
  by (induction cs) auto

lemma switch_no_match: "\<forall>t\<in>set (map fst cs). d \<noteq> Str t \<Longrightarrow> switch d cs dflt = dflt"
  by (induction cs) auto

lemma switch_picks_a_clause: "switch d cs dflt = dflt \<or> switch d cs dflt \<in> snd ` set cs"
proof (induction cs)
  case Nil
  show ?case by simp
next
  case (Cons c cs)
  obtain l h where c: "c = (l, h)" by (cases c)
  from Cons show ?case
    unfolding c by (cases "d = Str l") auto
qed

lemma has_get: "has v k P \<Longrightarrow> \<exists>x. get v k = Inr x \<and> P x"
  by (cases v) (auto split: option.splits)

lemma is_string_Str: "is_string x \<Longrightarrow> \<exists>s. x = Str s"
  by (cases x) auto

lemma is_number_Num: "is_number x \<Longrightarrow> \<exists>n. x = Num n"
  by (cases x) auto

lemma map_of_key: "t \<in> set (map fst cs) \<Longrightarrow> \<exists>h. map_of cs t = Some h"
  by (induction cs) auto

lemma logger_cases_keys: "map fst (logger_cases L) = [''loading'', ''failed'', ''success'']"
  by (simp add: logger_cases_def)

lemma logger2_cases_keys: "map fst (logger2_cases L) = [''loading'', ''failed'', ''success'']"
  by (simp add: logger2_cases_def)

lemma logger3_cases_keys: "map fst (logger3_cases L) = [''loading'', ''failed'', ''success'']"
  by (simp add: logger3_cases_def)

lemma logger4_cases_keys:
  "map fst (logger4_cases L) = [''loading'', ''failed'', ''success'', ''from_cache'']"
  by (simp add: logger4_cases_def)

subsection \<open>The discriminant of a well-typed value\<close>

lemma loading_tag: "is_NetworkLoadingState v \<Longrightarrow> get v ''state'' = Inr (Str ''loading'')"
  by (auto simp: is_NetworkLoadingState_def dest!: has_get)

lemma failed_tag: "is_NetworkFailedState v \<Longrightarrow> get v ''state'' = Inr (Str ''failed'')"
  by (auto simp: is_NetworkFailedState_def dest!: has_get)

lemma success_tag: "is_NetworkSuccessState v \<Longrightarrow> get v ''state'' = Inr (Str ''success'')"
  by (auto simp: is_NetworkSuccessState_def dest!: has_get)

lemma from_cache_tag:
  "is_NetworkFromCachedState v \<Longrightarrow> get v ''state'' = Inr (Str ''from_cache'')"
  by (auto simp: is_NetworkFromCachedState_def dest!: has_get)

lemma failed_code: "is_NetworkFailedState v \<Longrightarrow> \<exists>n. get v ''code'' = Inr (Num n)"
  by (auto simp: is_NetworkFailedState_def dest!: has_get is_number_Num)

lemma has_caseI:
  assumes "get v k = Inr (Str t)" and "t \<in> set tags" and "t \<in> set (map fst cs)"
  shows "\<exists>t h. t \<in> set tags \<and> get v k = Inr (Str t) \<and> map_of cs t = Some h"
proof -
  from assms(3) obtain h where "map_of cs t = Some h"
    using map_of_key by fastforce
  with assms(1,2) show ?thesis by blast
qed

lemma NetworkState_has_case:
  assumes "is_NetworkState v"
  shows "\<exists>t h. t \<in> set NetworkState_tags \<and> get v ''state'' = Inr (Str t)
    \<and> map_of (logger_cases L) t = Some h"
proof -
  from assms consider "is_NetworkSuccessState v" | "is_NetworkFailedState v"
    | "is_NetworkLoadingState v"
    unfolding is_NetworkState_def by blast
  then show ?thesis
  proof cases
    case 1
    show ?thesis
      by (rule has_caseI [OF success_tag [OF 1]])
        (simp_all add: NetworkState_tags_def logger_cases_keys)
  next
    case 2
    show ?thesis
      by (rule has_caseI [OF failed_tag [OF 2]])
        (simp_all add: NetworkState_tags_def logger_cases_keys)
  next
    case 3
    show ?thesis
      by (rule has_caseI [OF loading_tag [OF 3]])
        (simp_all add: NetworkState_tags_def logger_cases_keys)
  qed
qed

lemma NetworkState2_has_case:
  assumes "is_NetworkState2 v"
  shows "\<exists>t h. t \<in> set NetworkState2_tags \<and> get v ''state'' = Inr (Str t)
    \<and> map_of (logger4_cases L) t = Some h"
proof -
  from assms consider "is_NetworkLoadingState v" | "is_NetworkFailedState v"
    | "is_NetworkSuccessState v" | "is_NetworkFromCachedState v"
    unfolding is_NetworkState2_def by blast
  then show ?thesis
  proof cases
    case 1
    show ?thesis
      by (rule has_caseI [OF loading_tag [OF 1]])
        (simp_all add: NetworkState2_tags_def logger4_cases_keys)
  next
    case 2
    show ?thesis
      by (rule has_caseI [OF failed_tag [OF 2]])
        (simp_all add: NetworkState2_tags_def logger4_cases_keys)
  next
    case 3
    show ?thesis
      by (rule has_caseI [OF success_tag [OF 3]])
        (simp_all add: NetworkState2_tags_def logger4_cases_keys)
  next
    case 4
    show ?thesis
      by (rule has_caseI [OF from_cache_tag [OF 4]])
        (simp_all add: NetworkState2_tags_def logger4_cases_keys)
  qed
qed

subsection \<open>\<open>switch_on\<close>\<close>

lemma switch_on_at_tag:
  "get v f = Inr (Str t) \<Longrightarrow> map_of cs t = Some h \<Longrightarrow> switch_on f cs dflt v w = h v w"
  by (simp add: switch_on_def switch_map_of)

lemma switch_on_unmatched:
  assumes "get v f = Inr d" and "d \<notin> Str ` set (map fst cs)"
  shows "switch_on f cs dflt v w = dflt v w"
proof -
  from assms(2) have "\<forall>t\<in>set (map fst cs). d \<noteq> Str t"
    by blast
  with assms(1) show ?thesis
    by (simp add: switch_on_def switch_no_match)
qed

lemma switch_on_runs_one_handler:
  assumes "get v f = Inr d"
  shows "\<exists>h. (h = dflt \<or> h \<in> snd ` set cs) \<and> switch_on f cs dflt v w = h v w"
proof -
  have "switch_on f cs dflt v w = switch d cs dflt v w"
    using assms by (simp add: switch_on_def)
  with switch_picks_a_clause [of d cs dflt] show ?thesis
    by metis
qed

subsection \<open>\<open>assertNever\<close>\<close>

lemma assertNever_throws: "\<exists>e. assertNever L x w = (Inl e, w)"
  by (simp add: assertNever_def and_then_def build_def split: sum.splits)

lemma assertNever_message:
  "to_string x = Inr s \<Longrightarrow> length (''Unexpected object: '' @ s) \<le> L \<Longrightarrow>
   assertNever L x w = (Inl (Error (''Unexpected object: '' @ s)), w)"
  by (simp add: assertNever_def and_then_def build_def)

lemma assertNever_conversion_fails:
  "to_string x = Inl e \<Longrightarrow> assertNever L x w = (Inl e, w)"
  by (simp add: assertNever_def and_then_def)

subsection \<open>\<open>logger\<close> and \<open>logger4\<close> clause by clause\<close>

lemma logger_loading:
  "is_NetworkLoadingState v \<Longrightarrow> logger L v w = (Inr (Str ''Downloading...''), w)"
  by (simp add: logger_def switch_on_def loading_tag logger_cases_def)

lemma logger_failed:
  assumes "is_NetworkFailedState v"
  shows "\<exists>n. get v ''code'' = Inr (Num n) \<and>
    (length (''Error '' @ number_to_string n @ '' downloading'') \<le> L \<longrightarrow>
     logger L v w = (Inr (Str (''Error '' @ number_to_string n @ '' downloading'')), w))"
proof -
  from failed_code [OF assms] obtain n where "get v ''code'' = Inr (Num n)" ..
  with failed_tag [OF assms] show ?thesis
    by (simp add: logger_def switch_on_def logger_cases_def and_then_def build_def)
qed

lemma logger_success:
  assumes "is_NetworkSuccessState v"
  shows "\<exists>r t s. get v ''response'' = Inr r \<and> get r ''title'' = Inr (Str t) \<and>
    get r ''summary'' = Inr (Str s) \<and>
    (length (''Downloaded '' @ t @ '' - '' @ s) \<le> L \<longrightarrow>
     logger L v w = (Inr (Str (''Downloaded '' @ t @ '' - '' @ s)), w))"
proof -
  from assms obtain r where r: "get v ''response'' = Inr r" "is_response r"
    by (auto simp: is_NetworkSuccessState_def dest!: has_get)
  from r(2) obtain t s where "get r ''title'' = Inr (Str t)" "get r ''summary'' = Inr (Str s)"
    by (auto simp: is_response_def dest!: has_get is_string_Str)
  with success_tag [OF assms] r(1) show ?thesis
    by (simp add: logger_def switch_on_def logger_cases_def and_then_def build_def)
qed

lemma logger_unmatched:
  "get v ''state'' = Inr d \<Longrightarrow> d \<notin> Str ` set (map fst (logger_cases L)) \<Longrightarrow>
   logger L v w = (Inr Undefined, w)"
  by (simp add: logger_def switch_on_unmatched no_return_def)

lemma logger4_unmatched:
  "get v ''state'' = Inr d \<Longrightarrow> d \<notin> Str ` set (map fst (logger4_cases L)) \<Longrightarrow>
   logger4 L v w = assertNever L v w"
  by (simp add: logger4_def switch_on_unmatched)

lemma logger_keeps_world: "logger L v w = (fst (logger L v w'), w)"
  by (simp add: logger_def switch_on_def logger_cases_def no_return_def split: sum.splits)

lemma logger4_keeps_world: "logger4 L v w = (fst (logger4 L v w'), w)"
  by (simp add: logger4_def switch_on_def logger4_cases_def assertNever_def
      split: sum.splits)

subsection \<open>\<open>logger2\<close> and \<open>logger3\<close> clause by clause\<close>

lemma logger2_from_cache:
  "is_NetworkFromCachedState v \<Longrightarrow> logger2 L v w = (Inr Undefined, w)"
  by (simp add: logger2_def switch_on_def from_cache_tag logger2_cases_def no_return_def)

lemma logger3_from_cache:
  "is_NetworkFromCachedState v \<Longrightarrow> logger3 L v w = (Inr Undefined, w)"
  by (simp add: logger3_def switch_on_def from_cache_tag logger3_cases_def no_return_def)

lemma logger23_loading:
  "is_NetworkLoadingState v \<Longrightarrow>
   logger2 L v w = (Inr (Str ''loading request''), w)
   \<and> logger3 L v w = (Inr (Str ''loading request''), w)"
  by (simp add: logger2_def logger3_def switch_on_def loading_tag logger2_cases_def
      logger3_cases_def)

lemma logger23_success:
  "is_NetworkSuccessState v \<Longrightarrow>
   logger2 L v w = (Inr (Str ''got response''), w)
   \<and> logger3 L v w = (Inr (Str ''got response''), w)"
  by (simp add: logger2_def logger3_def switch_on_def success_tag logger2_cases_def
      logger3_cases_def)

lemma logger23_failed:
  assumes "is_NetworkFailedState v"
  shows "\<exists>n. get v ''code'' = Inr (Num n) \<and>
    (length (''failed with code '' @ number_to_string n) \<le> L \<longrightarrow>
     logger2 L v w = (Inr (Str (''failed with code '' @ number_to_string n)), w)
     \<and> logger3 L v w = (Inr (Str (''failed with code '' @ number_to_string n)), w))"
proof -
  from failed_code [OF assms] obtain n where "get v ''code'' = Inr (Num n)" ..
  with failed_tag [OF assms] show ?thesis
    by (simp add: logger2_def logger3_def switch_on_def logger2_cases_def logger3_cases_def
        and_then_def build_def)
qed

subsection \<open>Clause order\<close>

lemma switch_order_irrelevant:
  assumes "distinct (map fst cs)" and "distinct (map fst cs')" and "set cs = set cs'"
  shows "switch d cs dflt = switch d cs' dflt"
proof (cases "is_string d")
  case True
  then obtain t where d: "d = Str t"
    using is_string_Str by blast
  from assms have "map_of cs = map_of cs'"
    by (simp add: map_of_inject_set)
  then show ?thesis
    by (simp add: d switch_map_of)
next
  case False
  then have "\<forall>t. d \<noteq> Str t" by auto
  then show ?thesis
    by (simp add: switch_no_match)
qed

lemma at_most_one_match:
  "distinct (map fst cs) \<Longrightarrow> length (filter (\<lambda>c. d = Str (fst c)) cs) \<le> 1"
  by (induction cs) (auto simp: filter_empty_conv image_iff)

subsection \<open>Arrays of holes and of code units\<close>

lemma join_holes: "join sep (None # replicate n None) = concat (replicate n sep)"
  by (induction n) simp_all

lemma concat_replicate_single: "concat (replicate n [c]) = replicate n c"
  by (induction n) simp_all

lemma Array_in_range:
  "n \<le> 4294967294 \<Longrightarrow>
   (Array (int n + 1) :: 'u js_array completion) = Inr (replicate (Suc n) None)"
  by (simp add: Array_def nat_add_distrib)

lemma padLeft1_number:
  "n \<le> 4294967294 \<Longrightarrow> n + length val \<le> L \<Longrightarrow>
   padLeft1 L val (num (int n)) w = (Inr (replicate n CHR '' '' @ val), w)"
  by (simp add: padLeft1_def num_def Rep_Abs_safe_integer Array_in_range and_then_def
      join_holes concat_replicate_single build_def)

lemma padLeft1_too_long:
  "n \<le> 4294967294 \<Longrightarrow> L < n + length val \<Longrightarrow>
   padLeft1 L val (num (int n)) w = (Inl RangeError, w)"
  by (simp add: padLeft1_def num_def Rep_Abs_safe_integer Array_in_range and_then_def
      join_holes concat_replicate_single build_def)

lemma padLeft1_other:
  "typeof q \<noteq> ''number'' \<Longrightarrow> typeof q \<noteq> ''string'' \<Longrightarrow> \<exists>e. padLeft1 L val q w = (Inl e, w)"
  by (cases q) (simp_all add: padLeft1_def and_then_def build_def split: option.splits)

lemma join_empty_separator: "join [] a = concat (map element a)"
  by (induction "[] :: 'a list" a rule: join.induct) simp_all

lemma concat_split_units: "concat (map element (map (\<lambda>c. Some [c]) s)) = s"
  by (induction s) simp_all

lemma reverse_rev: "reverse s = rev s"
proof -
  have "reverse s = concat (map element (map (\<lambda>c. Some [c]) (rev s)))"
    by (simp add: reverse_def split_units_def join_empty_separator rev_map)
  then show ?thesis
    by (simp only: concat_split_units)
qed

section \<open>Dispatch on the discriminant\<close>

text \<open>
  C1. The clause labels of \<open>logger\<close> are exactly the tags of \<open>NetworkState\<close>, those of
  \<open>logger4\<close> exactly the tags of \<open>NetworkState2\<close>. For every value of the declared type
  the discriminant \<open>state\<close> is one of the declared tags, the clause with that label exists,
  and the function returns the completion of that clause, unchanged. In particular
  \<open>logger\<close> returns \<open>"Downloading..."\<close> for a loading value, the string of the
  \<open>failed\<close> clause for a failed value and the string of the \<open>success\<close> clause for a
  success value, where the engine can build that string.
\<close>

theorem dispatch_routes_to_matching_case:
  "set (map fst (logger_cases L)) = set NetworkState_tags
   \<and> set (map fst (logger4_cases L)) = set NetworkState2_tags
   \<and> (is_NetworkState v \<longrightarrow>
        (\<exists>t h. t \<in> set NetworkState_tags \<and> get v ''state'' = Inr (Str t)
           \<and> map_of (logger_cases L) t = Some h \<and> logger L v w = h v w))
   \<and> (is_NetworkState2 v \<longrightarrow>
        (\<exists>t h. t \<in> set NetworkState2_tags \<and> get v ''state'' = Inr (Str t)
           \<and> map_of (logger4_cases L) t = Some h \<and> logger4 L v w = h v w))
   \<and> (is_NetworkLoadingState v \<longrightarrow> logger L v w = (Inr (Str ''Downloading...''), w))
   \<and> (is_NetworkFailedState v \<longrightarrow>
        (\<exists>n. get v ''code'' = Inr (Num n)
           \<and> (length (''Error '' @ number_to_string n @ '' downloading'') \<le> L \<longrightarrow>
              logger L v w
                = (Inr (Str (''Error '' @ number_to_string n @ '' downloading'')), w))))
   \<and> (is_NetworkSuccessState v \<longrightarrow>
        (\<exists>r t s. get v ''response'' = Inr r \<and> get r ''title'' = Inr (Str t)
           \<and> get r ''summary'' = Inr (Str s)
           \<and> (length (''Downloaded '' @ t @ '' - '' @ s) \<le> L \<longrightarrow>
              logger L v w = (Inr (Str (''Downloaded '' @ t @ '' - '' @ s)), w))))"
proof (intro conjI impI)
  show "set (map fst (logger_cases L)) = set NetworkState_tags"
    unfolding logger_cases_keys NetworkState_tags_def by (simp add: insert_commute)
  show "set (map fst (logger4_cases L)) = set NetworkState2_tags"
    unfolding logger4_cases_keys NetworkState2_tags_def by simp
next
  assume "is_NetworkState v"
  then obtain t h where "t \<in> set NetworkState_tags" "get v ''state'' = Inr (Str t)"
    "map_of (logger_cases L) t = Some h"
    using NetworkState_has_case by blast
  moreover from this have "logger L v w = h v w"
    by (simp add: logger_def switch_on_at_tag)
  ultimately show "\<exists>t h. t \<in> set NetworkState_tags \<and> get v ''state'' = Inr (Str t)
    \<and> map_of (logger_cases L) t = Some h \<and> logger L v w = h v w"
    by blast
next
  assume "is_NetworkState2 v"
  then obtain t h where "t \<in> set NetworkState2_tags" "get v ''state'' = Inr (Str t)"
    "map_of (logger4_cases L) t = Some h"
    using NetworkState2_has_case by blast
  moreover from this have "logger4 L v w = h v w"
    by (simp add: logger4_def switch_on_at_tag)
  ultimately show "\<exists>t h. t \<in> set NetworkState2_tags \<and> get v ''state'' = Inr (Str t)
    \<and> map_of (logger4_cases L) t = Some h \<and> logger4 L v w = h v w"
    by blast
next
  assume "is_NetworkLoadingState v"
  then show "logger L v w = (Inr (Str ''Downloading...''), w)"
    by (rule logger_loading)
next
  assume "is_NetworkFailedState v"
  then show "\<exists>n. get v ''code'' = Inr (Num n)
    \<and> (length (''Error '' @ number_to_string n @ '' downloading'') \<le> L \<longrightarrow>
       logger L v w = (Inr (Str (''Error '' @ number_to_string n @ '' downloading'')), w))"
    by (rule logger_failed)
next
  assume "is_NetworkSuccessState v"
  then show "\<exists>r t s. get v ''response'' = Inr r \<and> get r ''title'' = Inr (Str t)
    \<and> get r ''summary'' = Inr (Str s)
    \<and> (length (''Downloaded '' @ t @ '' - '' @ s) \<le> L \<longrightarrow>
       logger L v w = (Inr (Str (''Downloaded '' @ t @ '' - '' @ s)), w))"
    by (rule logger_success)
qed

theorem dispatch_routes_to_matching_case_witness:
  "is_NetworkState (Obj [(''state'', Str ''loading'')])
   \<and> is_NetworkLoadingState (Obj [(''state'', Str ''loading'')])
   \<and> logger 536870888 (Obj [(''state'', Str ''loading'')]) \<lparr>console = []\<rparr>
       = (Inr (Str ''Downloading...''), \<lparr>console = []\<rparr>)
   \<and> is_NetworkFailedState (Obj [(''state'', Str ''failed''), (''code'', num 404)])
   \<and> logger 536870888 (Obj [(''state'', Str ''failed''), (''code'', num 404)])
        \<lparr>console = []\<rparr>
       = (Inr (Str ''Error 404 downloading''), \<lparr>console = []\<rparr>)
   \<and> is_NetworkSuccessState (Obj [(''state'', Str ''success''),
        (''response'',
         Obj [(''title'', Str ''T''), (''duration'', num 7), (''summary'', Str ''S'')])])
   \<and> logger 536870888 (Obj [(''state'', Str ''success''),
        (''response'',
         Obj [(''title'', Str ''T''), (''duration'', num 7), (''summary'', Str ''S'')])])
        \<lparr>console = []\<rparr>
       = (Inr (Str ''Downloaded T - S''), \<lparr>console = []\<rparr>)
   \<and> is_NetworkState2 (Obj [(''state'', Str ''from_cache''), (''id'', Str ''a1''),
        (''response'',
         Obj [(''title'', Str ''T''), (''duration'', num 7), (''summary'', Str ''S'')])])
   \<and> logger4 536870888 (Obj [(''state'', Str ''from_cache''), (''id'', Str ''a1''),
        (''response'',
         Obj [(''title'', Str ''T''), (''duration'', num 7), (''summary'', Str ''S'')])])
        \<lparr>console = []\<rparr>
       = (Inr (Str ''cashed''), \<lparr>console = []\<rparr>)"
  using
    dispatch_routes_to_matching_case [of 536870888 "Obj [(''state'', Str ''loading'')]"
      "\<lparr>console = []\<rparr>"]
    dispatch_routes_to_matching_case [of 536870888
      "Obj [(''state'', Str ''failed''), (''code'', num 404)]" "\<lparr>console = []\<rparr>"]
    dispatch_routes_to_matching_case [of 536870888 "Obj [(''state'', Str ''success''),
        (''response'',
         Obj [(''title'', Str ''T''), (''duration'', num 7), (''summary'', Str ''S'')])]"
      "\<lparr>console = []\<rparr>"]
    dispatch_routes_to_matching_case [of 536870888
      "Obj [(''state'', Str ''from_cache''), (''id'', Str ''a1''),
        (''response'',
         Obj [(''title'', Str ''T''), (''duration'', num 7), (''summary'', Str ''S'')])]"
      "\<lparr>console = []\<rparr>"]
  by (simp add: is_NetworkState_def is_NetworkState2_def is_NetworkLoadingState_def
      is_NetworkFailedState_def is_NetworkSuccessState_def is_response_def
      is_NetworkFromCachedState_def NetworkState2_tags_def logger4_cases_def num_def
      number_to_string_404)

text \<open>
  C2, amended. When the discriminant \<open>state\<close> can be read and is none of the four tags
  of \<open>NetworkState2\<close>, \<open>logger4\<close> never returns: it throws. If the whole value
  converts to a string and the engine can build the message, what it throws is the
  \<open>Error\<close> of \<open>assertNever\<close>, whose message is \<open>"Unexpected object: "\<close> followed by
  that string; for an object with no \<open>toString\<close> property of its own the message is
  \<open>"Unexpected object: [object Object]"\<close> and does not carry the tag. When the
  discriminant is none of the three tags of \<open>NetworkState\<close>, \<open>logger\<close>, whose
  \<open>switch\<close> has no \<open>default\<close>, raises nothing and returns \<open>undefined\<close>.
\<close>

theorem unmatched_discriminant:
  "(get v ''state'' = Inr d \<and> d \<notin> Str ` set NetworkState2_tags \<longrightarrow>
      (\<exists>e. logger4 L v w = (Inl e, w)))
   \<and> (get v ''state'' = Inr d \<and> d \<notin> Str ` set NetworkState2_tags
       \<and> to_string v = Inr s \<and> length (''Unexpected object: '' @ s) \<le> L \<longrightarrow>
      logger4 L v w = (Inl (Error (''Unexpected object: '' @ s)), w))
   \<and> (get (Obj fs) ''state'' = Inr d \<and> d \<notin> Str ` set NetworkState2_tags
       \<and> map_of fs ''toString'' = None \<and> 34 \<le> L \<longrightarrow>
      logger4 L (Obj fs) w = (Inl (Error ''Unexpected object: [object Object]''), w))
   \<and> (get v ''state'' = Inr d \<and> d \<notin> Str ` set NetworkState_tags \<longrightarrow>
      logger L v w = (Inr Undefined, w))"
proof -
  have keys4: "Str ` set (map fst (logger4_cases L)) = Str ` set NetworkState2_tags"
    unfolding logger4_cases_keys NetworkState2_tags_def by simp
  have keys: "Str ` set (map fst (logger_cases L)) = Str ` set NetworkState_tags"
    unfolding logger_cases_keys NetworkState_tags_def by auto
  have default: "logger4 L u w = assertNever L u w"
    if a: "get u ''state'' = Inr d" and b: "d \<notin> Str ` set NetworkState2_tags" for u
  proof -
    have "d \<notin> Str ` set (map fst (logger4_cases L))"
      using b unfolding keys4 .
    with a show ?thesis
      by (rule logger4_unmatched)
  qed
  have "\<exists>e. logger4 L v w = (Inl e, w)"
    if "get v ''state'' = Inr d \<and> d \<notin> Str ` set NetworkState2_tags"
    using that default [of v] assertNever_throws [of L v w] by simp
  moreover have "logger4 L v w = (Inl (Error (''Unexpected object: '' @ s)), w)"
    if "get v ''state'' = Inr d \<and> d \<notin> Str ` set NetworkState2_tags
       \<and> to_string v = Inr s \<and> length (''Unexpected object: '' @ s) \<le> L"
    using that default [of v] assertNever_message [of v s L w] by simp
  moreover have "logger4 L (Obj fs) w = (Inl (Error ''Unexpected object: [object Object]''), w)"
    if "get (Obj fs) ''state'' = Inr d \<and> d \<notin> Str ` set NetworkState2_tags
       \<and> map_of fs ''toString'' = None \<and> 34 \<le> L"
    using that default [of "Obj fs"] assertNever_message [of "Obj fs" "''[object Object]''" L w]
    by simp
  moreover have "logger L v w = (Inr Undefined, w)"
    if a: "get v ''state'' = Inr d \<and> d \<notin> Str ` set NetworkState_tags"
  proof -
    from a have b: "d \<notin> Str ` set NetworkState_tags" ..
    have c: "d \<notin> Str ` set (map fst (logger_cases L))"
      using b unfolding keys .
    from a have "get v ''state'' = Inr d" ..
    then show ?thesis
      using c by (rule logger_unmatched)
  qed
  ultimately show ?thesis
    by blast
qed

theorem unmatched_discriminant_witness:
  "get (Obj [(''state'', Str ''archived'')]) ''state'' = Inr (Str ''archived'')
   \<and> Str ''archived'' \<notin> Str ` set NetworkState2_tags
   \<and> Str ''archived'' \<notin> Str ` set NetworkState_tags
   \<and> map_of [(''state'', Str ''archived'')] ''toString'' = None
   \<and> (34::nat) \<le> 536870888
   \<and> logger4 536870888 (Obj [(''state'', Str ''archived'')]) \<lparr>console = []\<rparr>
       = (Inl (Error ''Unexpected object: [object Object]''), \<lparr>console = []\<rparr>)
   \<and> logger 536870888 (Obj [(''state'', Str ''archived'')]) \<lparr>console = []\<rparr>
       = (Inr Undefined, \<lparr>console = []\<rparr>)"
  using unmatched_discriminant [of "Obj [(''state'', Str ''archived'')]" "Str ''archived''"
      536870888 "\<lparr>console = []\<rparr>" "''[object Object]''" "[(''state'', Str ''archived'')]"]
  by (simp add: NetworkState_tags_def NetworkState2_tags_def)

text \<open>
  The claim as stated fails twice: \<open>logger\<close> on a value tagged \<open>from_cache\<close> returns
  \<open>undefined\<close> without raising, and the error \<open>logger4\<close> throws for the unknown tag
  \<open>archived\<close> reads \<open>"Unexpected object: [object Object]"\<close>.
\<close>

theorem unknown_tag_counterexample:
  "logger 536870888 (Obj [(''state'', Str ''from_cache'')]) \<lparr>console = []\<rparr>
     = (Inr Undefined, \<lparr>console = []\<rparr>)
   \<and> logger4 536870888 (Obj [(''state'', Str ''archived'')]) \<lparr>console = []\<rparr>
     = (Inl (Error ''Unexpected object: [object Object]''), \<lparr>console = []\<rparr>)"
  by (simp add: logger_def logger_cases_def no_return_def logger4_def logger4_cases_def
      switch_on_def assertNever_def and_then_def build_def)

text \<open>
  C3, amended. \<open>logger2\<close> and \<open>logger3\<close> are declared on \<open>NetworkState2\<close> and omit
  exactly one of its tags, \<open>from_cache\<close>. Nothing fails: on every value of type
  \<open>NetworkFromCachedState\<close> both return \<open>undefined\<close>; on a loading value both return
  \<open>"loading request"\<close>, on a success value \<open>"got response"\<close>, and on a failed value
  \<open>"failed with code "\<close> followed by the code, where the engine can build that string.
\<close>

theorem omitted_tag_returns_undefined:
  "filter (\<lambda>t. t \<notin> set (map fst (logger2_cases L))) NetworkState2_tags = [''from_cache'']
   \<and> filter (\<lambda>t. t \<notin> set (map fst (logger3_cases L))) NetworkState2_tags = [''from_cache'']
   \<and> (is_NetworkFromCachedState v \<longrightarrow>
        logger2 L v w = (Inr Undefined, w) \<and> logger3 L v w = (Inr Undefined, w))
   \<and> (is_NetworkLoadingState v \<longrightarrow>
        logger2 L v w = (Inr (Str ''loading request''), w)
        \<and> logger3 L v w = (Inr (Str ''loading request''), w))
   \<and> (is_NetworkSuccessState v \<longrightarrow>
        logger2 L v w = (Inr (Str ''got response''), w)
        \<and> logger3 L v w = (Inr (Str ''got response''), w))
   \<and> (is_NetworkFailedState v \<longrightarrow>
        (\<exists>n. get v ''code'' = Inr (Num n)
           \<and> (length (''failed with code '' @ number_to_string n) \<le> L \<longrightarrow>
              logger2 L v w = (Inr (Str (''failed with code '' @ number_to_string n)), w)
              \<and> logger3 L v w = (Inr (Str (''failed with code '' @ number_to_string n)), w))))"
proof (intro conjI impI)
  show "filter (\<lambda>t. t \<notin> set (map fst (logger2_cases L))) NetworkState2_tags = [''from_cache'']"
    unfolding logger2_cases_keys NetworkState2_tags_def by simp
  show "filter (\<lambda>t. t \<notin> set (map fst (logger3_cases L))) NetworkState2_tags = [''from_cache'']"
    unfolding logger3_cases_keys NetworkState2_tags_def by simp
next
  assume "is_NetworkFromCachedState v"
  then show "logger2 L v w = (Inr Undefined, w)" "logger3 L v w = (Inr Undefined, w)"
    by (rule logger2_from_cache, rule logger3_from_cache)
next
  assume a: "is_NetworkLoadingState v"
  from logger23_loading [OF a]
  show "logger2 L v w = (Inr (Str ''loading request''), w)"
    "logger3 L v w = (Inr (Str ''loading request''), w)"
    by simp_all
next
  assume a: "is_NetworkSuccessState v"
  from logger23_success [OF a]
  show "logger2 L v w = (Inr (Str ''got response''), w)"
    "logger3 L v w = (Inr (Str ''got response''), w)"
    by simp_all
next
  assume "is_NetworkFailedState v"
  then show "\<exists>n. get v ''code'' = Inr (Num n)
    \<and> (length (''failed with code '' @ number_to_string n) \<le> L \<longrightarrow>
       logger2 L v w = (Inr (Str (''failed with code '' @ number_to_string n)), w)
       \<and> logger3 L v w = (Inr (Str (''failed with code '' @ number_to_string n)), w))"
    by (rule logger23_failed)
qed

theorem omitted_tag_returns_undefined_witness:
  "is_NetworkFromCachedState (Obj [(''state'', Str ''from_cache''), (''id'', Str ''a1''),
        (''response'',
         Obj [(''title'', Str ''T''), (''duration'', num 7), (''summary'', Str ''S'')])])
   \<and> logger2 536870888 (Obj [(''state'', Str ''from_cache''), (''id'', Str ''a1''),
        (''response'',
         Obj [(''title'', Str ''T''), (''duration'', num 7), (''summary'', Str ''S'')])])
        \<lparr>console = []\<rparr> = (Inr Undefined, \<lparr>console = []\<rparr>)
   \<and> is_NetworkLoadingState (Obj [(''state'', Str ''loading'')])
   \<and> logger3 536870888 (Obj [(''state'', Str ''loading'')]) \<lparr>console = []\<rparr>
        = (Inr (Str ''loading request''), \<lparr>console = []\<rparr>)
   \<and> is_NetworkSuccessState (Obj [(''state'', Str ''success''),
        (''response'',
         Obj [(''title'', Str ''T''), (''duration'', num 7), (''summary'', Str ''S'')])])
   \<and> logger2 536870888 (Obj [(''state'', Str ''success''),
        (''response'',
         Obj [(''title'', Str ''T''), (''duration'', num 7), (''summary'', Str ''S'')])])
        \<lparr>console = []\<rparr> = (Inr (Str ''got response''), \<lparr>console = []\<rparr>)
   \<and> is_NetworkFailedState (Obj [(''state'', Str ''failed''), (''code'', num 404)])
   \<and> logger3 536870888 (Obj [(''state'', Str ''failed''), (''code'', num 404)])
        \<lparr>console = []\<rparr> = (Inr (Str ''failed with code 404''), \<lparr>console = []\<rparr>)"
  using
    omitted_tag_returns_undefined [of 536870888
      "Obj [(''state'', Str ''from_cache''), (''id'', Str ''a1''),
        (''response'',
         Obj [(''title'', Str ''T''), (''duration'', num 7), (''summary'', Str ''S'')])]"
      "\<lparr>console = []\<rparr>"]
    omitted_tag_returns_undefined [of 536870888 "Obj [(''state'', Str ''loading'')]"
      "\<lparr>console = []\<rparr>"]
    omitted_tag_returns_undefined [of 536870888 "Obj [(''state'', Str ''success''),
        (''response'',
         Obj [(''title'', Str ''T''), (''duration'', num 7), (''summary'', Str ''S'')])]"
      "\<lparr>console = []\<rparr>"]
    omitted_tag_returns_undefined [of 536870888
      "Obj [(''state'', Str ''failed''), (''code'', num 404)]" "\<lparr>console = []\<rparr>"]
  by (simp add: is_NetworkLoadingState_def is_NetworkFromCachedState_def
      is_NetworkSuccessState_def is_NetworkFailedState_def is_response_def num_def
      number_to_string_404)

text \<open>
  The claim as stated fails on a well-typed \<open>from_cache\<close> value: \<open>logger2\<close> and
  \<open>logger3\<close>, which omit that tag, exist, run and return \<open>undefined\<close>.
\<close>

theorem omitted_tag_counterexample:
  "is_NetworkState2 (Obj [(''state'', Str ''from_cache''), (''id'', Str ''a1''),
        (''response'',
         Obj [(''title'', Str ''T''), (''duration'', num 7), (''summary'', Str ''S'')])])
   \<and> logger2 536870888 (Obj [(''state'', Str ''from_cache''), (''id'', Str ''a1''),
        (''response'',
         Obj [(''title'', Str ''T''), (''duration'', num 7), (''summary'', Str ''S'')])])
        \<lparr>console = []\<rparr> = (Inr Undefined, \<lparr>console = []\<rparr>)
   \<and> logger3 536870888 (Obj [(''state'', Str ''from_cache''), (''id'', Str ''a1''),
        (''response'',
         Obj [(''title'', Str ''T''), (''duration'', num 7), (''summary'', Str ''S'')])])
        \<lparr>console = []\<rparr> = (Inr Undefined, \<lparr>console = []\<rparr>)"
  by (simp add: is_NetworkState2_def is_NetworkFromCachedState_def is_response_def num_def
      logger2_def logger2_cases_def logger3_def logger3_cases_def switch_on_def no_return_def)

text \<open>
  C4. In the scenario of the specification, dispatching the value
  \<open>{kind: "failed", code: 404}\<close> over the three given handlers returns exactly the
  string \<open>"Error 404"\<close>, whatever the \<open>default\<close> of the dispatch, on every engine that
  can build a string of nine code units.
\<close>

theorem scenario_failed_404:
  "9 \<le> L \<longrightarrow>
   switch_on ''kind'' (scenario_handlers L) dflt
     (Obj [(''kind'', Str ''failed''), (''code'', num 404)]) w
     = (Inr (Str ''Error 404''), w)"
  by (simp add: switch_on_def scenario_handlers_def and_then_def build_def num_def
      number_to_string_404)

theorem scenario_failed_404_witness:
  "(9::nat) \<le> 536870888
   \<and> switch_on ''kind'' (scenario_handlers 536870888) (assertNever 536870888)
     (Obj [(''kind'', Str ''failed''), (''code'', num 404)]) \<lparr>console = []\<rparr>
     = (Inr (Str ''Error 404''), \<lparr>console = []\<rparr>)"
  using scenario_failed_404 [of 536870888 "assertNever 536870888" "\<lparr>console = []\<rparr>"]
  by simp

text \<open>
  C6. Dispatch is routing and nothing else. Over every handler table, whatever its
  handlers do to the world: if the discriminant cannot be read, the read's error is thrown
  and the world is left as it was; otherwise completion and world are exactly those of
  one handler of the table, or of the \<open>default\<close>, run once on the value in the world
  dispatch was given: the handler of the first clause labelled with the discriminant, the
  \<open>default\<close> if there is none. \<open>logger\<close> and \<open>logger4\<close>, whose handlers have no
  effect, leave the world as they found it, and their completion does not depend on the
  world: two runs on the same value give the same completion.
\<close>

theorem dispatch_is_pure:
  "(get v ''state'' = Inl e \<longrightarrow> switch_on ''state'' cs dflt v w = (Inl e, w))
   \<and> (get v ''state'' = Inr d \<longrightarrow>
        (\<exists>h. (h = dflt \<or> h \<in> snd ` set cs) \<and> switch_on ''state'' cs dflt v w = h v w))
   \<and> (get v ''state'' = Inr (Str t) \<and> map_of cs t = Some h \<longrightarrow>
        switch_on ''state'' cs dflt v w = h v w)
   \<and> (get v ''state'' = Inr d \<and> d \<notin> Str ` set (map fst cs) \<longrightarrow>
        switch_on ''state'' cs dflt v w = dflt v w)
   \<and> snd (logger L v w) = w \<and> fst (logger L v w) = fst (logger L v w')
   \<and> snd (logger4 L v w) = w \<and> fst (logger4 L v w) = fst (logger4 L v w')"
proof -
  have "logger L v w = (fst (logger L v w'), w)" "logger4 L v w = (fst (logger4 L v w'), w)"
    by (rule logger_keeps_world, rule logger4_keeps_world)
  then have "snd (logger L v w) = w \<and> fst (logger L v w) = fst (logger L v w')
    \<and> snd (logger4 L v w) = w \<and> fst (logger4 L v w) = fst (logger4 L v w')"
    by simp
  moreover have "get v ''state'' = Inl e \<longrightarrow> switch_on ''state'' cs dflt v w = (Inl e, w)"
    by (simp add: switch_on_def)
  moreover have "get v ''state'' = Inr d \<longrightarrow>
    (\<exists>h. (h = dflt \<or> h \<in> snd ` set cs) \<and> switch_on ''state'' cs dflt v w = h v w)"
    using switch_on_runs_one_handler [of v "''state''" d dflt cs w] by blast
  moreover have "get v ''state'' = Inr (Str t) \<and> map_of cs t = Some h \<longrightarrow>
    switch_on ''state'' cs dflt v w = h v w"
    by (simp add: switch_on_at_tag)
  moreover have "get v ''state'' = Inr d \<and> d \<notin> Str ` set (map fst cs) \<longrightarrow>
    switch_on ''state'' cs dflt v w = dflt v w"
    using switch_on_unmatched [of v "''state''" d cs dflt w] by blast
  ultimately show ?thesis
    by blast
qed

theorem dispatch_is_pure_witness:
  "get (Obj [(''state'', Str ''loading'')]) ''state'' = Inr (Str ''loading'')
   \<and> map_of [(''loading'', \<lambda>s w. (Inr Undefined, w\<lparr>console := console w @ [''seen'']\<rparr>))]
        ''loading''
      = Some (\<lambda>s w. (Inr Undefined, w\<lparr>console := console w @ [''seen'']\<rparr>))
   \<and> switch_on ''state''
        [(''loading'', \<lambda>s w. (Inr Undefined, w\<lparr>console := console w @ [''seen'']\<rparr>))]
        no_return (Obj [(''state'', Str ''loading'')]) \<lparr>console = []\<rparr>
      = (Inr Undefined, \<lparr>console = [''seen'']\<rparr>)
   \<and> get Undefined ''state'' = Inl TypeError
   \<and> switch_on ''state''
        [(''loading'', \<lambda>s w. (Inr Undefined, w\<lparr>console := console w @ [''seen'']\<rparr>))]
        no_return Undefined \<lparr>console = []\<rparr>
      = (Inl TypeError, \<lparr>console = []\<rparr>)"
  using
    dispatch_is_pure [of "Obj [(''state'', Str ''loading'')]" TypeError
      "[(''loading'', \<lambda>s w. (Inr Undefined, w\<lparr>console := console w @ [''seen'']\<rparr>))]"
      no_return "\<lparr>console = []\<rparr>" "Str ''loading''" "''loading''"
      "\<lambda>s w. (Inr Undefined, w\<lparr>console := console w @ [''seen'']\<rparr>)"]
    dispatch_is_pure [of Undefined TypeError
      "[(''loading'', \<lambda>s w. (Inr Undefined, w\<lparr>console := console w @ [''seen'']\<rparr>))]"
      no_return "\<lparr>console = []\<rparr>"]
  by simp

text \<open>
  C7. The tags of \<open>NetworkState\<close> and of \<open>NetworkState2\<close> are pairwise distinct, and so
  are the clause labels of \<open>logger\<close> and \<open>logger4\<close>: for every discriminant at most one
  clause matches, and \<open>logger4\<close>'s \<open>switch\<close> yields the same with its clauses in any
  other order.
\<close>

theorem tags_pairwise_distinct:
  "distinct NetworkState_tags \<and> distinct NetworkState2_tags
   \<and> distinct (map fst (logger_cases L)) \<and> distinct (map fst (logger4_cases L))
   \<and> length (filter (\<lambda>c. d = Str (fst c)) (logger_cases L)) \<le> 1
   \<and> length (filter (\<lambda>c. d = Str (fst c)) (logger4_cases L)) \<le> 1
   \<and> (set cs = set (logger4_cases L) \<and> distinct (map fst cs) \<longrightarrow>
        switch d cs dflt = switch d (logger4_cases L) dflt)"
proof -
  have a: "distinct (map fst (logger_cases L))" and b: "distinct (map fst (logger4_cases L))"
    unfolding logger_cases_keys logger4_cases_keys by simp_all
  have "distinct NetworkState_tags" "distinct NetworkState2_tags"
    by (simp_all add: NetworkState_tags_def NetworkState2_tags_def)
  with a b show ?thesis
    using at_most_one_match [OF a, of d] at_most_one_match [OF b, of d]
      switch_order_irrelevant [of cs "logger4_cases L" d dflt]
    by simp
qed

theorem tags_pairwise_distinct_witness:
  "set (rev (logger4_cases 536870888)) = set (logger4_cases 536870888)
   \<and> distinct (map fst (rev (logger4_cases 536870888)))
   \<and> switch (Str ''failed'') (rev (logger4_cases 536870888)) (assertNever 536870888)
      = switch (Str ''failed'') (logger4_cases 536870888) (assertNever 536870888)"
  using tags_pairwise_distinct [of 536870888 "Str ''failed''" "rev (logger4_cases 536870888)"
      "assertNever 536870888"]
  by (simp add: rev_map [symmetric] logger4_cases_keys)

text \<open>
  C8, amended. \<open>assertNever\<close> never returns normally: for every \<open>x\<close> it throws. If
  \<open>x\<close> converts to a string and the engine can build the message, it throws the
  \<open>Error\<close> whose message is \<open>"Unexpected object: "\<close> followed by that string; if the
  conversion of \<open>x\<close> throws, that error is the one thrown. Whenever the discriminant
  matches no clause of \<open>logger4\<close>, \<open>logger4\<close> is that call, so it raises and produces no
  string.
\<close>

theorem assertNever_always_throws:
  "(\<exists>e. assertNever L x w = (Inl e, w))
   \<and> (to_string x = Inr s \<and> length (''Unexpected object: '' @ s) \<le> L \<longrightarrow>
        assertNever L x w = (Inl (Error (''Unexpected object: '' @ s)), w))
   \<and> (to_string x = Inl e \<longrightarrow> assertNever L x w = (Inl e, w))
   \<and> (get v ''state'' = Inr d \<and> d \<notin> Str ` set (map fst (logger4_cases L)) \<longrightarrow>
        logger4 L v w = assertNever L v w \<and> (\<exists>e. logger4 L v w = (Inl e, w)))"
  using assertNever_throws [of L x w] assertNever_throws [of L v w]
    assertNever_message [of x s L w] assertNever_conversion_fails [of x e L w]
    logger4_unmatched [of v d L w]
  by simp

theorem assertNever_always_throws_witness:
  "to_string (num 5) = Inr ''5''
   \<and> length (''Unexpected object: '' @ ''5'') \<le> 536870888
   \<and> assertNever 536870888 (num 5) \<lparr>console = []\<rparr>
       = (Inl (Error ''Unexpected object: 5''), \<lparr>console = []\<rparr>)
   \<and> to_string (Symbol ''id'') = Inl TypeError
   \<and> assertNever 536870888 (Symbol ''id'') \<lparr>console = []\<rparr>
       = (Inl TypeError, \<lparr>console = []\<rparr>)
   \<and> get (num 5) ''state'' = Inr Undefined
   \<and> Undefined \<notin> Str ` set (map fst (logger4_cases 536870888))
   \<and> logger4 536870888 (num 5) \<lparr>console = []\<rparr>
       = (Inl (Error ''Unexpected object: 5''), \<lparr>console = []\<rparr>)"
  using
    assertNever_always_throws [of 536870888 "num 5" "\<lparr>console = []\<rparr>" "''5''" TypeError
      "num 5" Undefined]
    assertNever_always_throws [of 536870888 "Symbol ''id''" "\<lparr>console = []\<rparr>" "''5''"
      TypeError "num 5" Undefined]
  by (auto simp add: num_def number_to_string_5)

text \<open>
  The claim as stated fails on the object \<open>{toString: 1}\<close>, which \<open>JSON.parse\<close>
  builds, and on a symbol: the concatenation throws a \<open>TypeError\<close>, and no \<open>Error\<close>
  with the stated message is thrown.
\<close>

theorem assertNever_counterexample:
  "assertNever 536870888 (Obj [(''toString'', num 1)]) \<lparr>console = []\<rparr>
     = (Inl TypeError, \<lparr>console = []\<rparr>)
   \<and> assertNever 536870888 (Symbol ''id'') \<lparr>console = []\<rparr>
     = (Inl TypeError, \<lparr>console = []\<rparr>)"
  by (simp add: assertNever_def and_then_def)

section \<open>Padding and reversing\<close>

text \<open>
  C9, amended. For every string \<open>val\<close> and every natural number \<open>n\<close> up to
  \<open>2^32 - 2\<close> such that the \<open>n + length val\<close> code units of the result are within the
  engine's maximal string length, \<open>padLeft1(val, n)\<close> returns \<open>n\<close> spaces followed by
  \<open>val\<close>. For every padding that is neither a number nor a string, \<open>padLeft1\<close>
  throws.
\<close>

theorem padLeft1_pads:
  "(n \<le> 4294967294 \<and> n + length val \<le> L \<longrightarrow>
      padLeft1 L val (num (int n)) w = (Inr (replicate n CHR '' '' @ val), w))
   \<and> (typeof q \<noteq> ''number'' \<and> typeof q \<noteq> ''string'' \<longrightarrow>
      (\<exists>e. padLeft1 L val q w = (Inl e, w)))"
  using padLeft1_number [of n val L w] padLeft1_other [of q L val w]
  by simp

theorem padLeft1_pads_witness:
  "(4::nat) \<le> 4294967294 \<and> 4 + length ''Hello World'' \<le> (536870888::nat)
   \<and> padLeft1 536870888 ''Hello World'' (num 4) \<lparr>console = []\<rparr>
       = (Inr ''    Hello World'', \<lparr>console = []\<rparr>)
   \<and> typeof (Bool True) \<noteq> ''number'' \<and> typeof (Bool True) \<noteq> ''string''
   \<and> padLeft1 536870888 ''Hello World'' (Bool True) \<lparr>console = []\<rparr>
       = (Inl (Error (''Expected string or number, got '' @ [CHR 0x27] @ ''true''
            @ [CHR 0x27] @ ''.'')), \<lparr>console = []\<rparr>)"
proof -
  have four: "replicate 4 CHR '' '' = ''    ''"
    by (simp add: numeral_eq_Suc)
  have thrown: "padLeft1 536870888 ''Hello World'' (Bool True) \<lparr>console = []\<rparr>
       = (Inl (Error (''Expected string or number, got '' @ [CHR 0x27] @ ''true''
            @ [CHR 0x27] @ ''.'')), \<lparr>console = []\<rparr>)"
    by (simp add: padLeft1_def and_then_def build_def)
  show ?thesis
    using padLeft1_pads [of 4 "''Hello World''" 536870888 "\<lparr>console = []\<rparr>" "Bool True"]
    by (simp add: four thrown)
qed

text \<open>
  The claim as stated fails at \<open>n = 2^32 - 1\<close>, where \<open>Array(4294967296)\<close> is not a
  valid array length, and, on an engine whose strings hold at most \<open>536870888\<close> code
  units, at \<open>n = 536870888\<close>, where the padded string is too long: both calls throw a
  \<open>RangeError\<close> instead of returning a string.
\<close>

theorem padLeft1_counterexample:
  "padLeft1 536870888 ''Hello World'' (num 4294967295) \<lparr>console = []\<rparr>
     = (Inl RangeError, \<lparr>console = []\<rparr>)
   \<and> padLeft1 536870888 ''Hello World'' (num 536870888) \<lparr>console = []\<rparr>
     = (Inl RangeError, \<lparr>console = []\<rparr>)"
proof -
  have "padLeft1 536870888 ''Hello World'' (num 4294967295) \<lparr>console = []\<rparr>
     = (Inl RangeError, \<lparr>console = []\<rparr>)"
    by (simp add: padLeft1_def num_def Rep_Abs_safe_integer Array_def and_then_def)
  moreover have "padLeft1 536870888 ''Hello World'' (num 536870888) \<lparr>console = []\<rparr>
     = (Inl RangeError, \<lparr>console = []\<rparr>)"
    using padLeft1_too_long [of 536870888 536870888 "''Hello World''" "\<lparr>console = []\<rparr>"]
    by simp
  ultimately show ?thesis
    by simp
qed

text \<open>
  C10. \<open>reverse\<close> is an involution on strings, \<open>reverse(reverse(s)) = s\<close>, and the
  result has the length of the input.
\<close>

theorem reverse_involution: "reverse (reverse s) = s \<and> length (reverse s) = length s"
  by (simp add: reverse_rev)

end
